theory Spec2Isabelle
  imports
    Complex_Main
    "HOL-Library.Sublist"
    "HOL-Library.Product_Lexorder"
    "HOL-Library.Char_ord"
    "HOL-Library.List_Lexorder"
begin

section \<open>Data model of expensetracker.py\<close>

text \<open>
  The program keeps its data in a pandas DataFrame under the session key \<open>expenses\<close> and a
  float under \<open>monthly_budget\<close>. A frame is modelled by its column labels, in order, and its
  rows. Every row carries the cells of the four columns the program reads; the cells of any
  other column are kept by label.

  A calendar date is (year, month, day); the lexicographic order of the triple is the order
  of dates. Timestamps are taken at day resolution. Amounts are rational numbers standing
  for the floats of the source; \<open>None\<close> is the float NaN of an empty cell. The Amount column
  is a column of numbers, as the entry form and the CSV reader on numeric text give it; the
  other columns hold any cell.

  An uploaded table that lacks one of the four columns has no cells for it: the field of
  that column is then NaN (\<open>None\<close> for Amount) in every row and is never read, since the
  import refuses such a table.
\<close>

type_synonym date = "nat \<times> nat \<times> nat"

datatype cell =
    NaN
  | Str string
  | Num rat
  | Bool bool
  | DateObj date
  | Timestamp date
  | NaT

record expense =
  Date :: cell
  Category :: cell
  Amount :: "rat option"
  Description :: cell
  Extra :: "(string \<times> cell) list"

record frame =
  columns :: "string list"
  rows :: "expense list"

record session =
  expenses :: frame
  monthly_budget :: rat
  profile_image :: string
  banner_image :: string

text \<open>
  What a call hands to the user interface: \<open>st.success\<close>, \<open>st.error\<close>, \<open>st.warning\<close>,
  the file that \<open>to_csv\<close> writes and the data behind \<open>st.download_button\<close>. A CSV text is
  kept as its table of fields, the header line first.
\<close>

type_synonym csv = "string list list"

datatype notice =
    Success string
  | Error string
  | Warning string
  | WriteFile string csv
  | DownloadButton string csv

subsection \<open>Session state initialisation (lines 104 to 107)\<close>

definition required_cols :: "string list" where
  "required_cols = [''Date'', ''Category'', ''Amount'', ''Description'']"

definition empty_expenses :: frame where
  "empty_expenses = \<lparr>columns = [''Date'', ''Category'', ''Amount'', ''Description''], rows = []\<rparr>"

definition init_session :: "string \<Rightarrow> string \<Rightarrow> session" where
  "init_session profile banner =
     \<lparr>expenses = empty_expenses, monthly_budget = 1000, profile_image = profile,
      banner_image = banner\<rparr>"

text \<open>
  \<open>DataFrame.empty\<close>: an axis of length 0. The ledger of a session always has the four
  required columns, so it is empty when it has no rows.
\<close>

definition is_empty :: "frame \<Rightarrow> bool" where
  "is_empty df = (rows df = [])"

subsection \<open>Record operations\<close>

definition missing_columns_message :: string where
  "missing_columns_message = ''CSV file missing required columns: Date, Category, Amount, Description.''"

text \<open>
  \<open>load_expenses_from_file\<close>: the uploader gives no file (\<open>None\<close>) or a file, which
  \<open>pd.read_csv\<close> has parsed into a frame.
\<close>

definition load_expenses_from_file :: "frame option \<Rightarrow> session \<Rightarrow> notice list \<times> session" where
  "load_expenses_from_file uploaded_file s =
     (case uploaded_file of
        None \<Rightarrow> ([], s)
      | Some df \<Rightarrow>
          if set required_cols \<subseteq> set (columns df)
          then ([Success ''Expenses loaded successfully!''], s\<lparr>expenses := df\<rparr>)
          else ([Error missing_columns_message], s))"

definition reset_data :: "session \<Rightarrow> notice list \<times> session" where
  "reset_data s =
     ([Success ''Expense data has been reset.''],
      s\<lparr>expenses := \<lparr>columns = [''Date'', ''Category'', ''Amount'', ''Description''], rows = []\<rparr>\<rparr>)"

definition load_sample_data :: "session \<Rightarrow> notice list \<times> session" where
  "load_sample_data s =
     ([Success ''Sample expense data loaded!''],
      s\<lparr>expenses :=
         \<lparr>columns = [''Date'', ''Category'', ''Amount'', ''Description''],
          rows =
            [\<lparr>Date = Str ''2025-01-01'', Category = Str ''Food'', Amount = Some (1575 / 100),
              Description = Str ''Breakfast'', Extra = []\<rparr>,
             \<lparr>Date = Str ''2025-01-02'', Category = Str ''Transport'', Amount = Some (780 / 100),
              Description = Str ''Bus fare'', Extra = []\<rparr>,
             \<lparr>Date = Str ''2025-01-03'', Category = Str ''Entertainment'', Amount = Some (2250 / 100),
              Description = Str ''Movie ticket'', Extra = []\<rparr>]\<rparr>\<rparr>)"

section \<open>Dates\<close>

text \<open>
  \<open>pd.to_datetime(..., errors='coerce')\<close> on one cell. A timestamp stays, a \<open>datetime.date\<close>
  of the entry form becomes the timestamp of that day, a missing value becomes \<open>NaT\<close>. How a
  text or a number is read is pandas' own algorithm: it is the parameter \<open>parse\<close>, and
  \<open>None\<close> is a value it cannot read, which \<open>errors='coerce'\<close> turns into \<open>NaT\<close>.
\<close>

type_synonym scalar_parser = "cell \<Rightarrow> date option"

fun to_datetime :: "scalar_parser \<Rightarrow> cell \<Rightarrow> cell" where
  "to_datetime parse (Timestamp d) = Timestamp d"
| "to_datetime parse (DateObj d) = Timestamp d"
| "to_datetime parse NaT = NaT"
| "to_datetime parse NaN = NaT"
| "to_datetime parse c = (case parse c of Some d \<Rightarrow> Timestamp d | None \<Rightarrow> NaT)"

text \<open>
  \<open>pd.api.types.is_datetime64_any_dtype\<close> of a column: the column holds timestamps and
  \<open>NaT\<close> only, which is what a column of dtype \<open>datetime64\<close> holds. (A column of another
  dtype holds a text, a number, a \<open>datetime.date\<close> or NaN somewhere: timestamps enter a
  ledger only through the coercion of a whole column.)
\<close>

fun is_datetime64_cell :: "cell \<Rightarrow> bool" where
  "is_datetime64_cell (Timestamp d) = True"
| "is_datetime64_cell NaT = True"
| "is_datetime64_cell c = False"

definition is_datetime64_any_dtype :: "cell list \<Rightarrow> bool" where
  "is_datetime64_any_dtype col = list_all is_datetime64_cell col"

text \<open>
  The parser used for the concrete ledgers below reads the ISO form \<open>YYYY-MM-DD\<close> of a
  calendar date, which pandas reads as that date, and nothing else.
\<close>

definition digit_val :: "char \<Rightarrow> nat option" where
  "digit_val c = map_of (zip ''0123456789'' [0, 1, 2, 3, 4, 5, 6, 7, 8, 9]) c"

fun digits_val :: "nat \<Rightarrow> string \<Rightarrow> nat option" where
  "digits_val acc [] = Some acc"
| "digits_val acc (c # cs) =
     (case digit_val c of None \<Rightarrow> None | Some v \<Rightarrow> digits_val (acc * 10 + v) cs)"

definition days_in_month :: "nat \<Rightarrow> nat \<Rightarrow> nat" where
  "days_in_month y m =
     (if m = 2 then (if y mod 4 = 0 \<and> (y mod 100 \<noteq> 0 \<or> y mod 400 = 0) then 29 else 28)
      else if m = 4 \<or> m = 6 \<or> m = 9 \<or> m = 11 then 30 else 31)"

definition iso_date :: "string \<Rightarrow> date option" where
  "iso_date s =
     (if length s = 10 \<and> s ! 4 = CHR ''-'' \<and> s ! 7 = CHR ''-'' then
        (case (digits_val 0 (take 4 s), digits_val 0 (take 2 (drop 5 s)), digits_val 0 (drop 8 s)) of
           (Some y, Some m, Some d) \<Rightarrow>
             if 1 \<le> y \<and> 1 \<le> m \<and> m \<le> 12 \<and> 1 \<le> d \<and> d \<le> days_in_month y m
             then Some (y, m, d) else None
         | _ \<Rightarrow> None)
      else None)"

fun iso_scalar :: scalar_parser where
  "iso_scalar (Str s) = iso_date s"
| "iso_scalar c = None"

section \<open>Home page (lines 209 to 234)\<close>

text \<open>\<open>Series.sum()\<close> of a float column: NaN cells are skipped, the empty sum is 0.\<close>

definition nansum :: "rat option list \<Rightarrow> rat" where
  "nansum xs = sum_list (map (\<lambda>a. case a of None \<Rightarrow> 0 | Some x \<Rightarrow> x) xs)"

text \<open>Missing values as \<open>pd.isna\<close> sees them; \<open>nunique\<close> and \<open>groupby\<close> leave them out.\<close>

fun isna :: "cell \<Rightarrow> bool" where
  "isna NaN = True"
| "isna NaT = True"
| "isna c = False"

definition total_expense :: "frame \<Rightarrow> rat" where
  "total_expense df = nansum (map Amount (rows df))"

definition num_expenses :: "frame \<Rightarrow> nat" where
  "num_expenses df = length (rows df)"

definition num_categories :: "frame \<Rightarrow> nat" where
  "num_categories df =
     (if \<not> is_empty df then length (remdups (filter (\<lambda>c. \<not> isna c) (map Category (rows df)))) else 0)"

text \<open>
  The mask \<open>(df["Date"].dt.month == current_month) & (df["Date"].dt.year == current_year)\<close>
  on a coerced cell: \<open>NaT\<close> has no month and no year, and compares unequal.
\<close>

fun in_month :: "date \<Rightarrow> cell \<Rightarrow> bool" where
  "in_month (cy, cm, cd) (Timestamp (y, m, d)) = (m = cm \<and> y = cy)"
| "in_month today c = False"

definition monthly_expenses :: "scalar_parser \<Rightarrow> date \<Rightarrow> frame \<Rightarrow> rat" where
  "monthly_expenses parse today df =
     (if \<not> is_empty df
      then nansum (map Amount (filter (\<lambda>r. in_month today (to_datetime parse (Date r))) (rows df)))
      else 0)"

datatype error = ZeroDivisionError | StreamlitAPIException

definition py_div :: "rat \<Rightarrow> rat \<Rightarrow> error + rat" where
  "py_div a b = (if b = 0 then Inl ZeroDivisionError else Inr (a / b))"

text \<open>
  Lines 231 and 232:
  \<^verbatim>\<open>progress = monthly_expenses / budget if budget > 0 else 0\<close>
  \<^verbatim>\<open>progress = progress if progress <= 1 else 1\<close>
\<close>

definition progress_ratio :: "rat \<Rightarrow> rat \<Rightarrow> error + rat" where
  "progress_ratio monthly budget =
     (case (if budget > 0 then py_div monthly budget else Inr 0) of
        Inl e \<Rightarrow> Inl e
      | Inr progress \<Rightarrow> Inr (if progress \<le> 1 then progress else 1))"

definition home_progress :: "scalar_parser \<Rightarrow> date \<Rightarrow> session \<Rightarrow> error + rat" where
  "home_progress parse today s =
     progress_ratio (monthly_expenses parse today (expenses s)) (monthly_budget s)"

record metrics =
  m_total :: rat
  m_transactions :: nat
  m_categories :: nat
  m_budget :: rat
  m_used :: rat
  m_progress :: rat

text \<open>
  \<open>st.progress\<close> with a float accepts a value from 0.0 to 1.0 and raises
  \<open>StreamlitAPIException\<close> for any other.
\<close>

definition st_progress :: "rat \<Rightarrow> error + unit" where
  "st_progress v = (if 0 \<le> v \<and> v \<le> 1 then Inr () else Inl StreamlitAPIException)"

text \<open>
  The Home page reads the session and works on a copy of the ledger
  (\<open>df = st.session_state.expenses.copy()\<close>): it returns the session it was given. Its
  result is the metrics it has shown, or the exception that ends the script run.
\<close>

definition home_page :: "scalar_parser \<Rightarrow> date \<Rightarrow> session \<Rightarrow> (error + metrics) \<times> session" where
  "home_page parse today s =
     (case home_progress parse today s of
        Inl e \<Rightarrow> (Inl e, s)
      | Inr p \<Rightarrow>
          (case st_progress p of
             Inl e \<Rightarrow> (Inl e, s)
           | Inr _ \<Rightarrow>
               (Inr \<lparr>m_total = total_expense (expenses s),
                     m_transactions = num_expenses (expenses s),
                     m_categories = num_categories (expenses s),
                     m_budget = monthly_budget s,
                     m_used = monthly_expenses parse today (expenses s),
                     m_progress = p\<rparr>, s)))"

section \<open>Connectivity probe (lines 54 to 62)\<close>

text \<open>
  \<open>requests.get\<close> returns a response or raises. The exceptions are those of
  \<open>requests.exceptions\<close>; \<open>isinstance_ConnectionError\<close> is its class hierarchy:
  \<open>ProxyError\<close>, \<open>SSLError\<close> and \<open>ConnectTimeout\<close> derive from \<open>ConnectionError\<close>, while
  \<open>ReadTimeout\<close> derives from \<open>Timeout\<close> only and the others from \<open>RequestException\<close>.
\<close>

datatype request_exception =
    ConnectionError
  | ProxyError
  | SSLError
  | ConnectTimeout
  | ReadTimeout
  | TooManyRedirects
  | ChunkedEncodingError
  | ContentDecodingError

datatype get_outcome = Response nat | Raises request_exception

fun isinstance_ConnectionError :: "request_exception \<Rightarrow> bool" where
  "isinstance_ConnectionError ConnectionError = True"
| "isinstance_ConnectionError ProxyError = True"
| "isinstance_ConnectionError SSLError = True"
| "isinstance_ConnectionError ConnectTimeout = True"
| "isinstance_ConnectionError ReadTimeout = False"
| "isinstance_ConnectionError TooManyRedirects = False"
| "isinstance_ConnectionError ChunkedEncodingError = False"
| "isinstance_ConnectionError ContentDecodingError = False"

text \<open>
  \<open>check_internet\<close>: \<open>Inr\<close> is the boolean returned, \<open>Inl\<close> an exception that leaves the
  function. The \<open>except\<close> clause catches \<open>requests.ConnectionError\<close> and nothing else.
\<close>

definition check_internet :: "get_outcome \<Rightarrow> request_exception + bool" where
  "check_internet outcome =
     (case outcome of
        Response _ \<Rightarrow> Inr True
      | Raises e \<Rightarrow> if isinstance_ConnectionError e then Inr False else Inl e)"

text \<open>Lines 61 and 62: the banner is shown when the probe returns \<open>False\<close>.\<close>

definition offline_banner :: "get_outcome \<Rightarrow> request_exception + string list" where
  "offline_banner outcome =
     (case check_internet outcome of
        Inl e \<Rightarrow> Inl e
      | Inr online \<Rightarrow> if \<not> online then Inr [''No Internet Connection''] else Inr [])"

subsection \<open>Concrete ledgers\<close>

text \<open>A CSV file with one refund, entered as a negative amount.\<close>

definition refund_csv :: frame where
  "refund_csv =
     \<lparr>columns = [''Date'', ''Category'', ''Amount'', ''Description''],
      rows = [\<lparr>Date = Str ''2025-01-15'', Category = Str ''Food'', Amount = Some (- 5),
               Description = Str ''Refund'', Extra = []\<rparr>]\<rparr>"

section \<open>Visualizations (lines 146 to 171)\<close>

text \<open>
  \<open>groupby(key, as_index=False)["Amount"].sum()\<close>: one group for every distinct key that is
  not missing (\<open>dropna=True\<close>, the default), the groups in ascending order of the key
  (\<open>sort=True\<close>, the default), each with the sum of its amounts, NaN skipped. \<open>cell_rank\<close>
  orders texts among themselves lexicographically and dates among themselves by calendar.
\<close>

fun cell_rank :: "cell \<Rightarrow> nat \<times> rat \<times> string \<times> date" where
  "cell_rank NaN = (0, 0, [], (0, 0, 0))"
| "cell_rank (Bool b) = (1, of_bool b, [], (0, 0, 0))"
| "cell_rank (Num a) = (2, a, [], (0, 0, 0))"
| "cell_rank (Str s) = (3, 0, s, (0, 0, 0))"
| "cell_rank (DateObj d) = (4, 0, [], d)"
| "cell_rank (Timestamp d) = (5, 0, [], d)"
| "cell_rank NaT = (6, 0, [], (0, 0, 0))"

definition group_keys :: "cell list \<Rightarrow> cell list" where
  "group_keys col = sort_key cell_rank (remdups (filter (\<lambda>c. \<not> isna c) col))"

definition groupby_sum :: "(expense \<Rightarrow> cell) \<Rightarrow> expense list \<Rightarrow> (cell \<times> rat) list" where
  "groupby_sum key rs =
     map (\<lambda>k. (k, nansum (map Amount (filter (\<lambda>r. key r = k) rs)))) (group_keys (map key rs))"

definition by_category :: "frame \<Rightarrow> (cell \<times> rat) list" where
  "by_category df = groupby_sum Category (rows df)"

definition over_time :: "frame \<Rightarrow> (cell \<times> rat) list" where
  "over_time df = sort_key (\<lambda>g. cell_rank (fst g)) (groupby_sum Date (rows df))"

record charts =
  cat_summary :: "(cell \<times> rat) list"
  time_summary :: "(cell \<times> rat) list"

text \<open>
  Lines 153 and 154 write the coerced column back into the session:
  \<^verbatim>\<open>st.session_state.expenses["Date"] = pd.to_datetime(..., errors='coerce')\<close>
\<close>

definition ensure_datetime :: "scalar_parser \<Rightarrow> frame \<Rightarrow> frame" where
  "ensure_datetime parse df =
     (if \<not> is_datetime64_any_dtype (map Date (rows df))
      then df\<lparr>rows := map (\<lambda>r. r\<lparr>Date := to_datetime parse (Date r)\<rparr>) (rows df)\<rparr>
      else df)"

definition show_visualizations ::
  "scalar_parser \<Rightarrow> session \<Rightarrow> (notice list \<times> charts option) \<times> session" where
  "show_visualizations parse s =
     (if is_empty (expenses s)
      then (([Warning ''No expenses data available for visualization.''], None), s)
      else
        let s' = s\<lparr>expenses := ensure_datetime parse (expenses s)\<rparr>
        in (([], Some \<lparr>cat_summary = by_category (expenses s'),
                        time_summary = over_time (expenses s')\<rparr>), s'))"


text \<open>The same with a date that is no date.\<close>

definition undated_csv :: frame where
  "undated_csv =
     \<lparr>columns = [''Date'', ''Category'', ''Amount'', ''Description''],
      rows = [\<lparr>Date = Str ''someday'', Category = NaN, Amount = Some 5,
               Description = Str ''cash'', Extra = []\<rparr>]\<rparr>"

text \<open>A CSV file of two rows, the second with a date that is no date.\<close>

definition mixed_csv :: frame where
  "mixed_csv =
     \<lparr>columns = [''Date'', ''Category'', ''Amount'', ''Description''],
      rows = [\<lparr>Date = Str ''2025-01-15'', Category = Str ''Food'', Amount = Some 12,
               Description = Str ''lunch'', Extra = []\<rparr>,
              \<lparr>Date = Str ''someday'', Category = Str ''Food'', Amount = Some 5,
               Description = Str ''snack'', Extra = []\<rparr>]\<rparr>"

section \<open>Export (lines 130 to 144)\<close>

text \<open>
  \<open>DataFrame.to_csv(index=False)\<close>: the column labels, then one line per row with one field
  per column, in the order of the frame's columns. A missing value is written as the empty
  field, a text as it is, a \<open>datetime.date\<close> and a timestamp of a \<open>datetime64\<close> column as
  \<open>YYYY-MM-DD\<close>; a timestamp in a column of mixed objects is written with its time of day.
  How a number is written is Python's \<open>repr\<close>, the parameter \<open>repr\<close>. The quoting of a
  field that holds a separator, and its undoing by the reader, are the csv library's.
\<close>

definition digit_char :: "nat \<Rightarrow> char" where
  "digit_char n = ''0123456789'' ! (n mod 10)"

definition iso_format :: "date \<Rightarrow> string" where
  "iso_format d =
     (case d of (y, m, dd) \<Rightarrow>
        [digit_char (y div 1000), digit_char (y div 100), digit_char (y div 10), digit_char y]
        @ ''-'' @ [digit_char (m div 10), digit_char m]
        @ ''-'' @ [digit_char (dd div 10), digit_char dd])"

fun render_cell :: "(rat \<Rightarrow> string) \<Rightarrow> bool \<Rightarrow> cell \<Rightarrow> string" where
  "render_cell repr dt64 NaN = []"
| "render_cell repr dt64 NaT = []"
| "render_cell repr dt64 (Str s) = s"
| "render_cell repr dt64 (Num a) = repr a"
| "render_cell repr dt64 (Bool b) = (if b then ''True'' else ''False'')"
| "render_cell repr dt64 (DateObj d) = iso_format d"
| "render_cell repr dt64 (Timestamp d) = (if dt64 then iso_format d else iso_format d @ '' 00:00:00'')"

text \<open>The cell of a row under a column label; the Amount column is a column of floats.\<close>

definition cell_of :: "string \<Rightarrow> expense \<Rightarrow> cell" where
  "cell_of c r =
     (if c = ''Date'' then Date r
      else if c = ''Category'' then Category r
      else if c = ''Amount'' then (case Amount r of None \<Rightarrow> NaN | Some a \<Rightarrow> Num a)
      else if c = ''Description'' then Description r
      else (case map_of (Extra r) c of None \<Rightarrow> NaN | Some x \<Rightarrow> x))"

definition field_of :: "(rat \<Rightarrow> string) \<Rightarrow> frame \<Rightarrow> string \<Rightarrow> expense \<Rightarrow> string" where
  "field_of repr df c r =
     render_cell repr (is_datetime64_any_dtype (map (cell_of c) (rows df))) (cell_of c r)"

definition to_csv :: "(rat \<Rightarrow> string) \<Rightarrow> frame \<Rightarrow> csv" where
  "to_csv repr df = columns df # map (\<lambda>r. map (\<lambda>c. field_of repr df c r) (columns df)) (rows df)"

definition save_expenses_to_file :: "(rat \<Rightarrow> string) \<Rightarrow> session \<Rightarrow> notice list \<times> session" where
  "save_expenses_to_file repr s =
     (if \<not> is_empty (expenses s)
      then ([WriteFile ''expenses.csv'' (to_csv repr (expenses s)),
             Success ''Expenses saved to 'expenses.csv'!''], s)
      else ([Warning ''No expense data available to save.''], s))"

definition download_expenses :: "(rat \<Rightarrow> string) \<Rightarrow> session \<Rightarrow> notice list \<times> session" where
  "download_expenses repr s =
     (if \<not> is_empty (expenses s)
      then ([DownloadButton ''expenses.csv'' (to_csv repr (expenses s))], s)
      else ([Warning ''No expense data to download!''], s))"

text \<open>
  The \<open>repr\<close> used for the concrete ledgers below writes a number with a finite decimal
  expansion as Python writes the float: sign, integer part, point, and the fractional
  digits, at least one.
\<close>

fun nat_digits :: "nat \<Rightarrow> nat \<Rightarrow> string" where
  "nat_digits 0 n = []"
| "nat_digits (Suc k) n = (if n < 10 then [digit_char n] else nat_digits k (n div 10) @ [digit_char n])"

fun frac_digits :: "nat \<Rightarrow> rat \<Rightarrow> string" where
  "frac_digits 0 x = []"
| "frac_digits (Suc k) x =
     (if x = 0 then []
      else digit_char (nat \<lfloor>x * 10\<rfloor>) # frac_digits k (x * 10 - of_int \<lfloor>x * 10\<rfloor>))"

definition decimal_repr :: "rat \<Rightarrow> string" where
  "decimal_repr a =
     (if a < 0 then ''-'' else [])
     @ nat_digits 20 (nat \<lfloor>\<bar>a\<bar>\<rfloor>) @ ''.''
     @ (if \<bar>a\<bar> = of_int \<lfloor>\<bar>a\<bar>\<rfloor> then ''0'' else frac_digits 17 (\<bar>a\<bar> - of_int \<lfloor>\<bar>a\<bar>\<rfloor>))"

text \<open>A CSV file whose columns come in another order.\<close>

definition reordered_csv :: frame where
  "reordered_csv =
     \<lparr>columns = [''Amount'', ''Date'', ''Category'', ''Description''],
      rows = [\<lparr>Date = Str ''2025-01-15'', Category = Str ''Food'', Amount = Some 12,
               Description = Str ''lunch'', Extra = []\<rparr>]\<rparr>"

section \<open>Reading a CSV file (line 122)\<close>













text \<open>The field that \<open>to_csv\<close> writes for an amount.\<close>

definition amount_field :: "(rat \<Rightarrow> string) \<Rightarrow> rat option \<Rightarrow> string" where
  "amount_field repr a = (case a of None \<Rightarrow> [] | Some x \<Rightarrow> repr x)"

section \<open>Import\<close>

lemma sublist_in_message:
  "c \<in> set required_cols \<Longrightarrow> sublist c missing_columns_message"
proof -
  assume "c \<in> set required_cols"
  then consider "c = ''Date''" | "c = ''Category''" | "c = ''Amount''" | "c = ''Description''"
    by (auto simp: required_cols_def)
  then show ?thesis
  proof cases
    case 1
    have "missing_columns_message = ''CSV file missing required columns: '' @ ''Date'' @ '', Category, Amount, Description.''"
      by (simp add: missing_columns_message_def)
    then show ?thesis unfolding 1 by (metis sublist_appendI)
  next
    case 2
    have "missing_columns_message = ''CSV file missing required columns: Date, '' @ ''Category'' @ '', Amount, Description.''"
      by (simp add: missing_columns_message_def)
    then show ?thesis unfolding 2 by (metis sublist_appendI)
  next
    case 3
    have "missing_columns_message = ''CSV file missing required columns: Date, Category, '' @ ''Amount'' @ '', Description.''"
      by (simp add: missing_columns_message_def)
    then show ?thesis unfolding 3 by (metis sublist_appendI)
  next
    case 4
    have "missing_columns_message = ''CSV file missing required columns: Date, Category, Amount, '' @ ''Description'' @ ''.''"
      by (simp add: missing_columns_message_def)
    then show ?thesis unfolding 4 by (metis sublist_appendI)
  qed
qed

text \<open>
  C1 (import atomicity). When the parsed columns of the uploaded table do not include all of
  Date, Category, Amount and Description, \<open>load_expenses_from_file\<close> shows one error, whose
  text names every missing column (it is the fixed text listing the four required columns),
  and the session, the ledger with it, is exactly what it was before.
\<close>

theorem import_atomicity:
  assumes "\<not> set required_cols \<subseteq> set (columns df)"
  shows "\<exists>msg. load_expenses_from_file (Some df) s = ([Error msg], s)
           \<and> (\<forall>c \<in> set required_cols - set (columns df). sublist c msg)
           \<and> expenses (snd (load_expenses_from_file (Some df) s)) = expenses s"
  using assms by (auto simp: load_expenses_from_file_def intro: sublist_in_message)

theorem import_atomicity_witness:
  "\<not> set required_cols \<subseteq> set (columns \<lparr>columns = [''Date'', ''Category'', ''Amount''], rows = []\<rparr>)
   \<and> (\<exists>msg. load_expenses_from_file (Some \<lparr>columns = [''Date'', ''Category'', ''Amount''], rows = []\<rparr>)
               (snd (load_sample_data (init_session ''p'' ''b'')))
             = ([Error msg], snd (load_sample_data (init_session ''p'' ''b'')))
           \<and> (\<forall>c \<in> set required_cols - set (columns \<lparr>columns = [''Date'', ''Category'', ''Amount''], rows = []\<rparr>).
                  sublist c msg)
           \<and> expenses (snd (load_expenses_from_file (Some \<lparr>columns = [''Date'', ''Category'', ''Amount''], rows = []\<rparr>)
                  (snd (load_sample_data (init_session ''p'' ''b'')))))
             = expenses (snd (load_sample_data (init_session ''p'' ''b''))))"
proof -
  have h: "\<not> set required_cols \<subseteq> set (columns \<lparr>columns = [''Date'', ''Category'', ''Amount''], rows = []\<rparr>)"
    by (simp add: required_cols_def)
  show ?thesis
    using h import_atomicity [OF h, of "snd (load_sample_data (init_session ''p'' ''b''))"]
    by blast
qed

section \<open>Reset\<close>

text \<open>
  C10 (reset frame condition). \<open>reset_data\<close> sets the ledger to the empty table with the
  four columns Date, Category, Amount, Description, the table of a fresh session, and
  changes nothing else: the monthly budget and the two images keep their values.
\<close>

theorem reset_frame_condition:
  "snd (reset_data s) = s\<lparr>expenses := empty_expenses\<rparr>
   \<and> expenses (snd (reset_data s)) = expenses (init_session p b)
   \<and> rows (expenses (snd (reset_data s))) = []
   \<and> columns (expenses (snd (reset_data s))) = required_cols
   \<and> monthly_budget (snd (reset_data s)) = monthly_budget s
   \<and> profile_image (snd (reset_data s)) = profile_image s
   \<and> banner_image (snd (reset_data s)) = banner_image s"
  by (simp add: reset_data_def empty_expenses_def init_session_def required_cols_def)

section \<open>Connectivity probe: containment\<close>

lemma check_internet_caught:
  "check_internet (Response code) = Inr True"
  "check_internet (Raises ConnectionError) = Inr False"
  "check_internet (Raises ConnectTimeout) = Inr False"
  by (simp_all add: check_internet_def)

text \<open>
  C9 (connectivity probe containment). The claim fails on a read timeout: the server accepts
  the connection and sends nothing within the three seconds, \<open>requests.get\<close> raises
  \<open>ReadTimeout\<close>, the \<open>except\<close> clause does not catch it, and the exception leaves
  \<open>check_internet\<close> and the module-level \<open>if\<close> that calls it.
\<close>

theorem probe_read_timeout_escapes:
  "check_internet (Raises ReadTimeout) = Inl ReadTimeout
   \<and> offline_banner (Raises ReadTimeout) = Inl ReadTimeout"
  by (simp add: check_internet_def offline_banner_def)

section \<open>Monthly budget progress\<close>

lemma progress_ratio_total: "\<exists>p. progress_ratio m b = Inr p"
  by (simp add: progress_ratio_def py_div_def)

lemma progress_ratio_le_one: "progress_ratio m b = Inr p \<Longrightarrow> p \<le> 1"
  by (auto simp: progress_ratio_def py_div_def split: if_splits)

lemma progress_ratio_nonneg: "0 \<le> m \<Longrightarrow> progress_ratio m b = Inr p \<Longrightarrow> 0 \<le> p"
  by (auto simp: progress_ratio_def py_div_def split: if_splits)

text \<open>
  C3 (zero-budget safety). With a monthly budget of 0 the progress ratio of the Home page is
  0, whatever the ledger holds; and for no ledger and no budget does the computation end in
  a division by zero, since the division is only reached when the budget is positive.
\<close>

theorem zero_budget_ratio:
  "(monthly_budget s = 0 \<longrightarrow> home_progress parse today s = Inr 0)
   \<and> home_progress parse today s \<noteq> Inl ZeroDivisionError"
  by (simp add: home_progress_def progress_ratio_def py_div_def)

theorem zero_budget_ratio_witness:
  "monthly_budget ((snd (load_sample_data (init_session ''p'' ''b'')))\<lparr>monthly_budget := 0\<rparr>) = 0
   \<and> monthly_expenses iso_scalar (2025, 1, 20)
        (expenses ((snd (load_sample_data (init_session ''p'' ''b'')))\<lparr>monthly_budget := 0\<rparr>)) = 4605 / 100
   \<and> home_progress iso_scalar (2025, 1, 20)
        ((snd (load_sample_data (init_session ''p'' ''b'')))\<lparr>monthly_budget := 0\<rparr>) = Inr 0"
  using zero_budget_ratio [of "(snd (load_sample_data (init_session ''p'' ''b'')))\<lparr>monthly_budget := 0\<rparr>"
      iso_scalar "(2025, 1, 20)"]
  by (simp add: load_sample_data_def init_session_def monthly_expenses_def is_empty_def
      nansum_def iso_date_def digit_val_def days_in_month_def)

text \<open>
  C2 (clamping). The ratio is clamped from above only. A ledger imported from a CSV file
  with a negative amount dated in the current month gives a negative sum, and with the
  default budget of 1000 the ratio handed to \<open>st.progress\<close> is -0.005, below the interval
  from 0 to 1; \<open>st.progress\<close> refuses it and the Home page ends in an exception.
\<close>

theorem progress_below_zero:
  "home_progress iso_scalar (2025, 1, 20)
     (snd (load_expenses_from_file (Some refund_csv) (init_session ''p'' ''b''))) = Inr (- 1 / 200)
   \<and> fst (home_page iso_scalar (2025, 1, 20)
          (snd (load_expenses_from_file (Some refund_csv) (init_session ''p'' ''b''))))
       = Inl StreamlitAPIException"
proof -
  have p: "home_progress iso_scalar (2025, 1, 20)
     (snd (load_expenses_from_file (Some refund_csv) (init_session ''p'' ''b''))) = Inr (- 1 / 200)"
    by (simp add: home_progress_def progress_ratio_def py_div_def monthly_expenses_def is_empty_def
        nansum_def load_expenses_from_file_def refund_csv_def required_cols_def init_session_def
        iso_date_def digit_val_def days_in_month_def)
  show ?thesis
    unfolding home_page_def p by (simp add: st_progress_def)
qed

section \<open>Grouping and date coercion\<close>

lemma nansum_Cons: "nansum (a # xs) = (case a of None \<Rightarrow> 0 | Some x \<Rightarrow> x) + nansum xs"
  by (simp add: nansum_def)


lemma nansum_append: "nansum (xs @ ys) = nansum xs + nansum ys"
  by (simp add: nansum_def)



lemma set_group_keys: "set (group_keys col) = {c \<in> set col. \<not> isna c}"
  by (auto simp: group_keys_def)



lemma to_datetime_fixed: "is_datetime64_cell c \<Longrightarrow> to_datetime parse c = c"
  by (cases c) simp_all

lemma to_datetime_is_datetime64: "is_datetime64_cell (to_datetime parse c)"
  by (cases c) (simp_all split: option.split)

lemma ensure_datetime_rows:
  "rows (ensure_datetime parse df) = map (\<lambda>r. r\<lparr>Date := to_datetime parse (Date r)\<rparr>) (rows df)"
proof (cases "is_datetime64_any_dtype (map Date (rows df))")
  case True
  then have "\<forall>r \<in> set (rows df). r\<lparr>Date := to_datetime parse (Date r)\<rparr> = r"
    by (auto simp: is_datetime64_any_dtype_def list_all_iff to_datetime_fixed)
  then have "map (\<lambda>r. r\<lparr>Date := to_datetime parse (Date r)\<rparr>) (rows df) = rows df"
    by (simp add: map_idI)
  with True show ?thesis by (simp add: ensure_datetime_def)
next
  case False
  then show ?thesis by (simp add: ensure_datetime_def)
qed

lemma ensure_datetime_columns: "columns (ensure_datetime parse df) = columns df"
  by (simp add: ensure_datetime_def)

lemma ensure_datetime_eq:
  "ensure_datetime parse df = df\<lparr>rows := map (\<lambda>r. r\<lparr>Date := to_datetime parse (Date r)\<rparr>) (rows df)\<rparr>"
  using ensure_datetime_rows[of parse df] by (simp add: ensure_datetime_def)

lemma ensure_datetime_idem:
  "ensure_datetime parse (ensure_datetime parse df) = ensure_datetime parse df"
proof -
  have "is_datetime64_any_dtype (map Date (rows (ensure_datetime parse df)))"
    by (simp add: ensure_datetime_rows is_datetime64_any_dtype_def list_all_iff
        to_datetime_is_datetime64)
  then show ?thesis by (simp add: ensure_datetime_def[of parse "ensure_datetime parse df"])
qed

lemma groupby_sum_drop_missing:
  assumes "isna (key r)"
  shows "groupby_sum key (xs @ r # ys) = groupby_sum key (xs @ ys)"
proof -
  have keys: "group_keys (map key (xs @ r # ys)) = group_keys (map key (xs @ ys))"
    using assms by (simp add: group_keys_def)
  have "\<And>k. k \<in> set (group_keys (map key (xs @ ys))) \<Longrightarrow>
          filter (\<lambda>x. key x = k) (xs @ r # ys) = filter (\<lambda>x. key x = k) (xs @ ys)"
    using assms by (auto simp: set_group_keys)
  then show ?thesis
    unfolding groupby_sum_def keys by (intro map_cong) auto
qed

lemma by_category_ensure: "by_category (ensure_datetime parse df) = by_category df"
  by (simp add: by_category_def groupby_sum_def ensure_datetime_rows comp_def filter_map)




section \<open>Unparseable dates\<close>

lemma over_time_drop_missing:
  assumes "isna (Date r)"
  shows "over_time \<lparr>columns = cs, rows = xs @ r # ys\<rparr> = over_time \<lparr>columns = cs, rows = xs @ ys\<rparr>"
  using assms by (simp add: over_time_def groupby_sum_drop_missing)

lemma set_over_time_keys: "fst ` set (over_time df) = {c \<in> Date ` set (rows df). \<not> isna c}"
  by (auto simp: over_time_def groupby_sum_def set_group_keys image_iff)

lemma map_of_groupby:
  assumes "\<not> isna k" "k \<in> key ` set rs"
  shows "map_of (groupby_sum key rs) k = Some (nansum (map Amount (filter (\<lambda>r. key r = k) rs)))"
proof -
  have "k \<in> set (group_keys (map key rs))"
    using assms by (auto simp: set_group_keys)
  then show ?thesis
    unfolding groupby_sum_def by (simp add: map_of_map_restrict)
qed

text \<open>
  C5 (unparseable-date scoping). Take a ledger with a record \<open>r\<close> whose Date cell does not
  parse, that is, which \<open>to_datetime\<close> turns into \<open>NaT\<close>. Then \<open>show_visualizations\<close> draws its
  charts, the time series is the one that the other records alone give and has no group for
  \<open>NaT\<close>, the amount of \<open>r\<close> is part of \<open>total_expense\<close>, and, when the Category cell of \<open>r\<close>
  is not missing, the amount of \<open>r\<close> is part of the total of its category. When the Category
  cell is missing as well, the record is in no category group (the last theorem of this
  section gives such a ledger).
\<close>

theorem unparseable_date_scoping:
  assumes "rows (expenses s) = xs @ r # ys"
    and "to_datetime parse (Date r) = NaT"
  shows "\<exists>ch. snd (fst (show_visualizations parse s)) = Some ch
           \<and> time_summary ch =
               over_time \<lparr>columns = columns (expenses s),
                          rows = map (\<lambda>x. x\<lparr>Date := to_datetime parse (Date x)\<rparr>) (xs @ ys)\<rparr>
           \<and> NaT \<notin> fst ` set (time_summary ch)
           \<and> total_expense (expenses s)
               = (case Amount r of None \<Rightarrow> 0 | Some a \<Rightarrow> a) + nansum (map Amount (xs @ ys))
           \<and> (\<not> isna (Category r) \<longrightarrow>
                map_of (cat_summary ch) (Category r)
                  = Some ((case Amount r of None \<Rightarrow> 0 | Some a \<Rightarrow> a)
                          + nansum (map Amount (filter (\<lambda>x. Category x = Category r) (xs @ ys)))))"
proof -
  let ?co = "\<lambda>x. x\<lparr>Date := to_datetime parse (Date x)\<rparr>"
  let ?df = "ensure_datetime parse (expenses s)"
  have ne: "\<not> is_empty (expenses s)"
    using assms(1) by (simp add: is_empty_def)
  have rows: "rows ?df = map ?co xs @ ?co r # map ?co ys"
    by (simp add: ensure_datetime_rows assms(1))
  have df: "?df = \<lparr>columns = columns (expenses s), rows = map ?co xs @ ?co r # map ?co ys\<rparr>"
    using rows by (simp add: ensure_datetime_columns)
  have na: "isna (Date (?co r))"
    using assms(2) by simp
  have t1: "over_time ?df = over_time \<lparr>columns = columns (expenses s), rows = map ?co (xs @ ys)\<rparr>"
    unfolding df using over_time_drop_missing[OF na] by simp
  have t2: "NaT \<notin> fst ` set (over_time ?df)"
    by (auto simp: set_over_time_keys)
  have t3: "total_expense (expenses s)
              = (case Amount r of None \<Rightarrow> 0 | Some a \<Rightarrow> a) + nansum (map Amount (xs @ ys))"
    by (simp add: total_expense_def assms(1) nansum_append nansum_Cons)
  have t4: "map_of (by_category ?df) (Category r)
              = Some ((case Amount r of None \<Rightarrow> 0 | Some a \<Rightarrow> a)
                      + nansum (map Amount (filter (\<lambda>x. Category x = Category r) (xs @ ys))))"
    if "\<not> isna (Category r)"
  proof -
    have "map_of (groupby_sum Category (rows (expenses s))) (Category r)
            = Some (nansum (map Amount (filter (\<lambda>x. Category x = Category r) (rows (expenses s)))))"
      by (rule map_of_groupby[OF that]) (simp add: assms(1))
    then show ?thesis
      by (simp add: by_category_ensure by_category_def[of "expenses s"] assms(1)
          nansum_append nansum_Cons)
  qed
  show ?thesis
    using ne t1 t2 t3 t4 by (simp add: show_visualizations_def Let_def)
qed

theorem unparseable_date_scoping_witness:
  "rows (expenses (snd (load_expenses_from_file (Some mixed_csv) (init_session ''p'' ''b''))))
     = [\<lparr>Date = Str ''2025-01-15'', Category = Str ''Food'', Amount = Some 12,
         Description = Str ''lunch'', Extra = []\<rparr>]
       @ \<lparr>Date = Str ''someday'', Category = Str ''Food'', Amount = Some 5,
          Description = Str ''snack'', Extra = []\<rparr> # []
   \<and> to_datetime iso_scalar (Str ''someday'') = NaT
   \<and> (\<exists>ch. snd (fst (show_visualizations iso_scalar
                (snd (load_expenses_from_file (Some mixed_csv) (init_session ''p'' ''b''))))) = Some ch
          \<and> time_summary ch = [(Timestamp (2025, 1, 15), 12)]
          \<and> map_of (cat_summary ch) (Str ''Food'') = Some 17)
   \<and> total_expense (expenses (snd (load_expenses_from_file (Some mixed_csv) (init_session ''p'' ''b'')))) = 17"
proof -
  let ?s = "snd (load_expenses_from_file (Some mixed_csv) (init_session ''p'' ''b''))"
  let ?r1 = "\<lparr>Date = Str ''2025-01-15'', Category = Str ''Food'', Amount = Some 12,
         Description = Str ''lunch'', Extra = []\<rparr>"
  let ?r2 = "\<lparr>Date = Str ''someday'', Category = Str ''Food'', Amount = Some 5,
          Description = Str ''snack'', Extra = []\<rparr>"
  have h1: "rows (expenses ?s) = [?r1] @ ?r2 # []"
    by (simp add: load_expenses_from_file_def mixed_csv_def required_cols_def)
  have h2: "to_datetime iso_scalar (Date ?r2) = NaT"
    by (simp add: iso_date_def)
  have d: "iso_date ''2025-01-15'' = Some (2025, 1, 15)"
    by (simp add: iso_date_def digit_val_def days_in_month_def)
  have ot: "over_time \<lparr>columns = columns (expenses ?s),
                        rows = map (\<lambda>x. x\<lparr>Date := to_datetime iso_scalar (Date x)\<rparr>) ([?r1] @ [])\<rparr>
            = [(Timestamp (2025, 1, 15), 12)]"
    by (simp add: d over_time_def groupby_sum_def group_keys_def nansum_def)
  have tot: "total_expense (expenses ?s) = 17"
    by (simp add: total_expense_def h1 nansum_def)
  from unparseable_date_scoping [OF h1 h2]
  obtain ch where ch: "snd (fst (show_visualizations iso_scalar ?s)) = Some ch"
    "time_summary ch = over_time \<lparr>columns = columns (expenses ?s),
        rows = map (\<lambda>x. x\<lparr>Date := to_datetime iso_scalar (Date x)\<rparr>) ([?r1] @ [])\<rparr>"
    "map_of (cat_summary ch) (Category ?r2)
       = Some ((case Amount ?r2 of None \<Rightarrow> 0 | Some a \<Rightarrow> a)
               + nansum (map Amount (filter (\<lambda>x. Category x = Category ?r2) ([?r1] @ []))))"
    by auto
  have cat: "map_of (cat_summary ch) (Str ''Food'') = Some 17"
    using ch(3) by (simp add: nansum_def)
  have "\<exists>ch. snd (fst (show_visualizations iso_scalar ?s)) = Some ch
          \<and> time_summary ch = [(Timestamp (2025, 1, 15), 12)]
          \<and> map_of (cat_summary ch) (Str ''Food'') = Some 17"
    using ch(1) ch(2) ot cat by auto
  moreover have "to_datetime iso_scalar (Str ''someday'') = NaT"
    using h2 by simp
  ultimately show ?thesis
    using h1 tot by blast
qed

theorem unparseable_date_scoping_counterexample:
  "to_datetime iso_scalar (Date (hd (rows undated_csv))) = NaT
   \<and> Amount (hd (rows undated_csv)) = Some 5
   \<and> rows (expenses (snd (load_expenses_from_file (Some undated_csv) (init_session ''p'' ''b''))))
       = [hd (rows undated_csv)]
   \<and> snd (fst (show_visualizations iso_scalar
        (snd (load_expenses_from_file (Some undated_csv) (init_session ''p'' ''b'')))))
       = Some \<lparr>cat_summary = [], time_summary = []\<rparr>"
  by (simp add: undated_csv_def iso_date_def load_expenses_from_file_def required_cols_def
      show_visualizations_def is_empty_def ensure_datetime_def is_datetime64_any_dtype_def
      by_category_def over_time_def groupby_sum_def group_keys_def)

section \<open>Effect of the views on the session\<close>

lemma to_datetime_idem: "to_datetime parse (to_datetime parse c) = to_datetime parse c"
  by (simp add: to_datetime_fixed to_datetime_is_datetime64)

lemma home_after_ensure:
  "total_expense (ensure_datetime parse df) = total_expense df"
  "num_expenses (ensure_datetime parse df) = num_expenses df"
  "num_categories (ensure_datetime parse df) = num_categories df"
  "monthly_expenses parse today (ensure_datetime parse df) = monthly_expenses parse today df"
  by (simp_all add: total_expense_def num_expenses_def num_categories_def monthly_expenses_def
      is_empty_def ensure_datetime_rows comp_def filter_map to_datetime_idem)

lemma home_page_after_charts:
  "fst (home_page parse today (snd (show_visualizations parse s))) = fst (home_page parse today s)"
proof (cases "is_empty (expenses s)")
  case True
  then show ?thesis by (simp add: show_visualizations_def)
next
  case False
  then show ?thesis
    by (simp add: show_visualizations_def Let_def home_page_def home_progress_def home_after_ensure
        split: sum.split)
qed

text \<open>
  C6 (aggregator purity). The Home page, which computes the totals and the monthly
  utilization, returns the session it was given. \<open>show_visualizations\<close>, which computes the
  category totals and the time series, keeps the budget, the images, the columns, the order
  of the rows and every Category, Amount and Description, and overwrites each Date cell with
  its coercion to a timestamp; a second call changes nothing more and gives the same charts,
  and the Home page shows the same after the call as before it. The ledger is therefore
  not always the same after the call as before it (the theorem after this one gives the
  sample ledger, whose dates are texts).
\<close>

theorem views_effect_on_session:
  "snd (home_page parse today s) = s
   \<and> snd (show_visualizations parse s)
       = s\<lparr>expenses := (expenses s)\<lparr>rows :=
             map (\<lambda>r. r\<lparr>Date := to_datetime parse (Date r)\<rparr>) (rows (expenses s))\<rparr>\<rparr>
   \<and> show_visualizations parse (snd (show_visualizations parse s)) = show_visualizations parse s
   \<and> fst (home_page parse today (snd (show_visualizations parse s))) = fst (home_page parse today s)"
proof -
  have a: "snd (home_page parse today s) = s"
    by (simp add: home_page_def split: sum.split)
  have b: "snd (show_visualizations parse s)
       = s\<lparr>expenses := (expenses s)\<lparr>rows :=
             map (\<lambda>r. r\<lparr>Date := to_datetime parse (Date r)\<rparr>) (rows (expenses s))\<rparr>\<rparr>"
    by (simp add: show_visualizations_def is_empty_def Let_def ensure_datetime_eq)
  have c: "show_visualizations parse (snd (show_visualizations parse s)) = show_visualizations parse s"
  proof (cases "is_empty (expenses s)")
    case True
    then show ?thesis by (simp add: show_visualizations_def)
  next
    case False
    then have "\<not> is_empty (ensure_datetime parse (expenses s))"
      by (simp add: is_empty_def ensure_datetime_rows)
    with False show ?thesis
      by (simp add: show_visualizations_def Let_def ensure_datetime_idem)
  qed
  from a b c home_page_after_charts show ?thesis by blast
qed

theorem views_effect_on_session_counterexample:
  "expenses (snd (show_visualizations iso_scalar (snd (load_sample_data (init_session ''p'' ''b'')))))
   \<noteq> expenses (snd (load_sample_data (init_session ''p'' ''b'')))"
  by (simp add: show_visualizations_def load_sample_data_def init_session_def is_empty_def
      ensure_datetime_def is_datetime64_any_dtype_def Let_def split: option.split)

section \<open>Export and re-import\<close>







lemma field_of_Amount: "field_of repr L ''Amount'' r = amount_field repr (Amount r)"
  by (simp add: field_of_def cell_of_def amount_field_def split: option.split)







lemma standard_columns:
  "columns (expenses (init_session p b)) = required_cols"
  "columns (expenses (snd (reset_data s))) = required_cols"
  "columns (expenses (snd (load_sample_data s))) = required_cols"
  by (simp_all add: init_session_def empty_expenses_def reset_data_def load_sample_data_def
      required_cols_def)

lemma to_csv_standard:
  assumes "columns df = required_cols"
  shows "to_csv repr df = [''Date'', ''Category'', ''Amount'', ''Description'']
           # map (\<lambda>r. [field_of repr df ''Date'' r, field_of repr df ''Category'' r,
                        amount_field repr (Amount r), field_of repr df ''Description'' r]) (rows df)"
  using assms by (simp add: to_csv_def required_cols_def field_of_Amount)

text \<open>
  C8 (empty-export handling). On an empty ledger \<open>save_expenses_to_file\<close> and
  \<open>download_expenses\<close> show a warning, write nothing and return the session unchanged. On a
  non-empty ledger they write, or offer for download, the CSV table of the ledger and
  return the session unchanged. The table has the header line first and then one line per
  record, in the order of the records, each line with one field per column in the order of
  the ledger's own columns. That order is Date, Category, Amount, Description when the
  ledger's columns are the four required ones in that order, as after session start,
  Reset and LoadSample; after an import it is the order of the imported file (the last
  theorem of this section imports a file that starts with the Amount column).
\<close>

theorem export_outcomes:
  "(is_empty (expenses s) \<longrightarrow>
      save_expenses_to_file repr s = ([Warning ''No expense data available to save.''], s)
      \<and> download_expenses repr s = ([Warning ''No expense data to download!''], s))
   \<and> (\<not> is_empty (expenses s) \<longrightarrow>
      save_expenses_to_file repr s
        = ([WriteFile ''expenses.csv'' (to_csv repr (expenses s)),
            Success ''Expenses saved to 'expenses.csv'!''], s)
      \<and> download_expenses repr s = ([DownloadButton ''expenses.csv'' (to_csv repr (expenses s))], s))
   \<and> hd (to_csv repr (expenses s)) = columns (expenses s)
   \<and> tl (to_csv repr (expenses s))
       = map (\<lambda>r. map (\<lambda>c. field_of repr (expenses s) c r) (columns (expenses s))) (rows (expenses s))
   \<and> (columns (expenses s) = required_cols \<longrightarrow>
        to_csv repr (expenses s) = [''Date'', ''Category'', ''Amount'', ''Description'']
          # map (\<lambda>r. [field_of repr (expenses s) ''Date'' r, field_of repr (expenses s) ''Category'' r,
                       amount_field repr (Amount r), field_of repr (expenses s) ''Description'' r])
              (rows (expenses s)))"
  using to_csv_standard[of "expenses s" repr]
  by (simp add: save_expenses_to_file_def download_expenses_def to_csv_def)

theorem export_outcomes_witness:
  "is_empty (expenses (init_session ''p'' ''b''))
   \<and> save_expenses_to_file decimal_repr (init_session ''p'' ''b'')
       = ([Warning ''No expense data available to save.''], init_session ''p'' ''b'')
   \<and> \<not> is_empty (expenses (snd (load_sample_data (init_session ''p'' ''b''))))
   \<and> columns (expenses (snd (load_sample_data (init_session ''p'' ''b'')))) = required_cols
   \<and> download_expenses decimal_repr (snd (load_sample_data (init_session ''p'' ''b'')))
       = ([DownloadButton ''expenses.csv''
            [[''Date'', ''Category'', ''Amount'', ''Description''],
             [''2025-01-01'', ''Food'', ''15.75'', ''Breakfast''],
             [''2025-01-02'', ''Transport'', ''7.8'', ''Bus fare''],
             [''2025-01-03'', ''Entertainment'', ''22.5'', ''Movie ticket'']]],
          snd (load_sample_data (init_session ''p'' ''b'')))"
proof -
  let ?s = "snd (load_sample_data (init_session ''p'' ''b''))"
  have e: "is_empty (expenses (init_session ''p'' ''b''))"
    by (simp add: is_empty_def init_session_def empty_expenses_def)
  have n: "\<not> is_empty (expenses ?s)"
    by (simp add: is_empty_def load_sample_data_def)
  have c: "columns (expenses ?s) = required_cols"
    by (simp add: load_sample_data_def required_cols_def)
  have t: "to_csv decimal_repr (expenses ?s)
             = [[''Date'', ''Category'', ''Amount'', ''Description''],
                [''2025-01-01'', ''Food'', ''15.75'', ''Breakfast''],
                [''2025-01-02'', ''Transport'', ''7.8'', ''Bus fare''],
                [''2025-01-03'', ''Entertainment'', ''22.5'', ''Movie ticket'']]"
    by code_simp
  show ?thesis
    using e n c export_outcomes [of "init_session ''p'' ''b''" decimal_repr]
      export_outcomes [of ?s decimal_repr]
    unfolding t by simp
qed

theorem export_outcomes_counterexample:
  "download_expenses decimal_repr
      (snd (load_expenses_from_file (Some reordered_csv) (init_session ''p'' ''b'')))
   = ([DownloadButton ''expenses.csv''
         [[''Amount'', ''Date'', ''Category'', ''Description''],
          [''12.0'', ''2025-01-15'', ''Food'', ''lunch'']]],
      snd (load_expenses_from_file (Some reordered_csv) (init_session ''p'' ''b'')))"
  by code_simp






end
